theory Spec2Isabelle
  imports Main "HOL-Library.Word"
begin

section \<open>The checkbox widget of tview (checkbox.go)\<close>

text \<open>
  The development embeds \<^verbatim>\<open>checkbox.go\<close>: the \<^verbatim>\<open>Checkbox\<close> struct, \<^verbatim>\<open>SetChecked\<close>,
  \<^verbatim>\<open>Draw\<close> and the closure returned by \<^verbatim>\<open>InputHandler\<close>. The widget is one built by
  \<^verbatim>\<open>NewCheckbox\<close>, so its embedded \<^verbatim>\<open>*Box\<close> is present and the screen handed to
  \<^verbatim>\<open>Draw\<close> is a real screen (no nil receiver is modelled).
\<close>

subsection \<open>Values of Go and of tcell\<close>

text \<open>
  Go's \<^verbatim>\<open>int\<close> is a 64-bit two's complement integer: \<open>+\<close> and \<open>-\<close> wrap around and
  the comparisons of the source are the signed ones (\<open><s\<close>, \<open>\<le>s\<close>). A \<^verbatim>\<open>rune\<close> and a
  \<^verbatim>\<open>tcell.Color\<close> are \<^verbatim>\<open>int32\<close>. A Go string is its sequence of bytes.
\<close>

type_synonym go_int = "64 word"
type_synonym rune = "32 word"
type_synonym Color = "32 word"

text \<open>The two rune literals of the source, \<^verbatim>\<open>'X'\<close> and \<^verbatim>\<open>' '\<close>.\<close>

definition rune_X :: rune where
  "rune_X = 88"

definition rune_space :: rune where
  "rune_space = 32"

text \<open>
  \<^verbatim>\<open>tcell.Key\<close>: the switch of the input handler compares the key with five named
  constants only, which are pairwise different in tcell. \<open>KeyOther n\<close> stands for every
  other key, \<open>n\<close> being its code.
\<close>

datatype Key = KeyRune | KeyEnter | KeyTab | KeyBacktab | KeyEscape | KeyOther "16 word"

text \<open>\<^verbatim>\<open>tcell.EventKey\<close>, read through \<^verbatim>\<open>Key()\<close> and \<^verbatim>\<open>Rune()\<close>.\<close>

record EventKey =
  key :: Key
  ch :: rune

text \<open>
  \<^verbatim>\<open>tcell.Style\<close>: a foreground colour, a background colour and attributes.
  \<^verbatim>\<open>Foreground\<close> and \<^verbatim>\<open>Background\<close> return the style with that one colour replaced.
\<close>

record Style =
  fg :: Color
  bg :: Color
  attrs :: "32 word"

definition ColorDefault :: Color where
  "ColorDefault = - 1"

definition StyleDefault :: Style where
  "StyleDefault = \<lparr>fg = ColorDefault, bg = ColorDefault, attrs = 0\<rparr>"

definition Foreground :: "Style \<Rightarrow> Color \<Rightarrow> Style" where
  "Foreground st c = st\<lparr>fg := c\<rparr>"

definition Background :: "Style \<Rightarrow> Color \<Rightarrow> Style" where
  "Background st c = st\<lparr>bg := c\<rparr>"

text \<open>
  \<^verbatim>\<open>tcell.Screen\<close> is an interface. A screen is modelled by the calls made on it so
  far, oldest first; what it shows is computed from them by \<open>render\<close> below.
\<close>

datatype screen_call =
    SetContent_call go_int go_int rune "rune list" Style
  | ShowCursor_call go_int go_int
  | HideCursor_call

type_synonym Screen = "screen_call list"

definition SetContent :: "Screen \<Rightarrow> go_int \<Rightarrow> go_int \<Rightarrow> rune \<Rightarrow> rune list \<Rightarrow> Style \<Rightarrow> Screen" where
  "SetContent scr col row r comb st = scr @ [SetContent_call col row r comb st]"

definition HideCursor :: "Screen \<Rightarrow> Screen" where
  "HideCursor scr = scr @ [HideCursor_call]"

text \<open>What a screen shows: the cells written and where the cursor is (\<open>None\<close>: hidden).\<close>

type_synonym Cell = "rune \<times> rune list \<times> Style"

record Display =
  cells :: "go_int \<times> go_int \<rightharpoonup> Cell"
  cursor :: "(go_int \<times> go_int) option"

fun apply_call :: "Display \<Rightarrow> screen_call \<Rightarrow> Display" where
  "apply_call d (SetContent_call col row r comb st) = d\<lparr>cells := (cells d)((col, row) \<mapsto> (r, comb, st))\<rparr>"
| "apply_call d (ShowCursor_call col row) = d\<lparr>cursor := Some (col, row)\<rparr>"
| "apply_call d HideCursor_call = d\<lparr>cursor := None\<rparr>"

definition blank :: Display where
  "blank = \<lparr>cells = Map.empty, cursor = None\<rparr>"

definition render :: "Screen \<Rightarrow> Display" where
  "render scr = foldl apply_call blank scr"

subsection \<open>The Box base\<close>

text \<open>
  \<^verbatim>\<open>box.go\<close> is not part of the sources at hand. The fields of \<^verbatim>\<open>Box\<close> which
  \<^verbatim>\<open>checkbox.go\<close> reads are its rectangle, the border flag, the background colour and
  \<^verbatim>\<open>focus\<close>, whose \<^verbatim>\<open>HasFocus()\<close> is a query without effect.
\<close>

record Focusable =
  HasFocus :: bool

record Box =
  x :: go_int
  y :: go_int
  width :: go_int
  height :: go_int
  border :: bool
  backgroundColor :: Color
  focus :: Focusable

datatype Align = AlignLeft | AlignCenter | AlignRight

subsection \<open>The widget\<close>

text \<open>
  The two handlers are Go closures owned by the application. The widget only tests them
  against nil and calls them, so a handler is an opaque value of type \<open>'f\<close> (for
  \<^verbatim>\<open>changed\<close>) or \<open>'g\<close> (for \<^verbatim>\<open>done\<close>), and nil is \<open>None\<close>.
\<close>

record ('f, 'g) Checkbox =
  Box :: Box
  checked :: bool
  label :: string
  labelColor :: Color
  fieldBackgroundColor :: Color
  fieldTextColor :: Color
  changed :: "'f option"
  done' :: "'g option"

text \<open>
  A call of a handler is recorded with the handler, its argument and the widget as it is
  at the moment of the call, which is what the handler can observe.
\<close>

datatype ('f, 'g) call =
    Changed_call 'f bool "('f, 'g) Checkbox"
  | Done_call 'g Key "('f, 'g) Checkbox"

text \<open>
  The state the methods act on: the widget, the screen, and the handler calls made so
  far, oldest first.
\<close>

record ('f, 'g) World =
  widget :: "('f, 'g) Checkbox"
  screen :: Screen
  calls :: "('f, 'g) call list"

subsection \<open>SetChecked\<close>


subsection \<open>Draw\<close>

text \<open>
  Lines 122 to 131 of \<^verbatim>\<open>Draw\<close>: the locals \<^verbatim>\<open>x\<close>, \<^verbatim>\<open>y\<close>, \<^verbatim>\<open>rightLimit\<close> and
  \<^verbatim>\<open>height\<close> after the border adjustment.
\<close>

record Interior =
  x' :: go_int
  y' :: go_int
  rightLimit :: go_int
  height' :: go_int

definition prepare :: "Box \<Rightarrow> Interior" where
  "prepare b =
     (let p = \<lparr>x' = x b, y' = y b, rightLimit = x b + width b, height' = height b\<rparr>
      in if border b
         then \<lparr>x' = x' p + 1, y' = y' p + 1, rightLimit = rightLimit p - 2, height' = height' p - 2\<rparr>
         else p)"

text \<open>The guard of line 132.\<close>

definition too_small :: "Interior \<Rightarrow> bool" where
  "too_small p = (height' p <s 1 \<or> rightLimit p \<le>s x' p)"

text \<open>Lines 140 to 143.\<close>

definition fieldStyle :: "('f, 'g) Checkbox \<Rightarrow> Style" where
  "fieldStyle c =
     (let st = Foreground (Background StyleDefault (fieldBackgroundColor c)) (fieldTextColor c)
      in if HasFocus (focus (Box c))
         then Foreground (Background st (fieldTextColor c)) (fieldBackgroundColor c)
         else st)"

text \<open>Lines 144 to 147.\<close>

definition checkedRune :: "('f, 'g) Checkbox \<Rightarrow> rune" where
  "checkedRune c = (if \<not> checked c then rune_space else rune_X)"

text \<open>
  \<^verbatim>\<open>Box.Draw\<close> (box.go) and \<^verbatim>\<open>Print\<close> (util.go) are not part of the sources at hand:
  \<^verbatim>\<open>Draw\<close> takes them as the parameters \<open>box_Draw\<close> and \<open>print\<close>. Each may read and
  write the screen in any way, and neither writes a field of the widget; \<open>print\<close> also
  returns the number of columns it used.
\<close>

type_synonym box_draw = "Box \<Rightarrow> Screen \<Rightarrow> Screen"
type_synonym printer = "Screen \<Rightarrow> string \<Rightarrow> go_int \<Rightarrow> go_int \<Rightarrow> go_int \<Rightarrow> Align \<Rightarrow> Color \<Rightarrow> Screen \<times> go_int"

definition Draw :: "box_draw \<Rightarrow> printer \<Rightarrow> ('f, 'g) World \<Rightarrow> ('f, 'g) World" where
  "Draw box_Draw print w =
     (let c = widget w;
          scr = box_Draw (Box c) (screen w);
          p = prepare (Box c)
      in if too_small p then w\<lparr>screen := scr\<rparr>
         else
           (case print scr (label c) (x' p) (y' p) (rightLimit p - x' p) AlignLeft (labelColor c) of
              (scr1, n) \<Rightarrow>
                let col = x' p + n;
                    scr2 = SetContent scr1 col (y' p) (checkedRune c) [] (fieldStyle c);
                    scr3 = (if HasFocus (focus (Box c)) then HideCursor scr2 else scr2)
                in w\<lparr>screen := scr3\<rparr>))"

subsection \<open>InputHandler\<close>

text \<open>
  The closure returned by \<^verbatim>\<open>InputHandler\<close>, applied to an event. \<^verbatim>\<open>setFocus\<close> is not
  used by it.
\<close>

definition InputHandler :: "EventKey \<Rightarrow> 'p \<Rightarrow> ('f, 'g) World \<Rightarrow> ('f, 'g) World" where
  "InputHandler event setFocus w =
     (let k = key event in
      if k = KeyRune \<or> k = KeyEnter then
        (if k = KeyRune \<and> ch event \<noteq> rune_space then w
         else
           let c = (widget w)\<lparr>checked := \<not> checked (widget w)\<rparr>;
               w1 = w\<lparr>widget := c\<rparr>
           in (case changed c of
                 None \<Rightarrow> w1
               | Some f \<Rightarrow> w1\<lparr>calls := calls w1 @ [Changed_call f (checked c) c]\<rparr>))
      else if k = KeyTab \<or> k = KeyBacktab \<or> k = KeyEscape then
        (case done' (widget w) of
           None \<Rightarrow> w
         | Some g \<Rightarrow> w\<lparr>calls := calls w @ [Done_call g k (widget w)]\<rparr>)
      else w)"


subsection \<open>Reading the model\<close>

abbreviation interior :: "('f, 'g) World \<Rightarrow> Interior" where
  "interior w \<equiv> prepare (Box (widget w))"

abbreviation focused :: "('f, 'g) World \<Rightarrow> bool" where
  "focused w \<equiv> HasFocus (focus (Box (widget w)))"

text \<open>The display after further calls.\<close>

definition replay :: "Display \<Rightarrow> screen_call list \<Rightarrow> Display" where
  "replay d ops = foldl apply_call d ops"

fun moves_cursor :: "screen_call \<Rightarrow> bool" where
  "moves_cursor (SetContent_call col row r comb st) = False"
| "moves_cursor (ShowCursor_call col row) = True"
| "moves_cursor HideCursor_call = True"

text \<open>The columns of the interior computed by \<open>prepare\<close>, and those of the box itself.\<close>

definition interior_columns :: "Interior \<Rightarrow> go_int set" where
  "interior_columns p = {col. x' p \<le>s col \<and> col <s rightLimit p}"

definition box_columns :: "Box \<Rightarrow> go_int set" where
  "box_columns b = {col. x b \<le>s col \<and> col <s x b + width b}"




text \<open>
  A coordinate or size strictly between \<open>- 2 ^ 62\<close> and \<open>2 ^ 62\<close>: the arithmetic of
  \<open>prepare\<close> does not wrap around on such values.
\<close>

definition in_range :: "go_int \<Rightarrow> bool" where
  "in_range v = (- (2 ^ 62) < sint v \<and> sint v < 2 ^ 62)"

text \<open>
  The inside of the box as the spec words it, on the integers: the height and the width,
  each less two when there is a border.
\<close>

definition spec_interior_height :: "Box \<Rightarrow> int" where
  "spec_interior_height b = sint (height b) - (if border b then 2 else 0)"

definition spec_interior_width :: "Box \<Rightarrow> int" where
  "spec_interior_width b = sint (width b) - (if border b then 2 else 0)"

subsection \<open>Sample collaborators and sample widgets\<close>

text \<open>
  Modelled from the spec: \<^verbatim>\<open>Print\<close> (util.go, not part of the sources at hand), the
  bounded text layout that returns the columns it consumed. Only the left-aligned
  layout, the one \<^verbatim>\<open>Draw\<close> asks for, is modelled; the text is clipped to \<open>maxWidth\<close>
  columns and every byte of it is one column.
\<close>

fun print_runes :: "go_int \<Rightarrow> go_int \<Rightarrow> Style \<Rightarrow> string \<Rightarrow> screen_call list" where
  "print_runes col row st [] = []"
| "print_runes col row st (b # bs) =
     SetContent_call col row (of_char b) [] st # print_runes (col + 1) row st bs"

definition Print :: printer where
  "Print scr text col row maxWidth align color =
     (if maxWidth <s 0 then (scr, 0)
      else let shown = take (unat maxWidth) text
           in (scr @ print_runes col row (Foreground StyleDefault color) shown,
               word_of_nat (length shown)))"

text \<open>
  Modelled from the spec: \<^verbatim>\<open>Box.Draw\<close> (box.go, not part of the sources at hand), which
  paints the box before the widget draws its own content. The sample fills the
  rectangle with the background colour; the glyphs of the border, which the spec does
  not give, are left out.
\<close>

fun fill_row :: "go_int \<Rightarrow> go_int \<Rightarrow> nat \<Rightarrow> Style \<Rightarrow> screen_call list" where
  "fill_row col row 0 st = []"
| "fill_row col row (Suc n) st =
     SetContent_call col row rune_space [] st # fill_row (col + 1) row n st"

fun fill_rows :: "go_int \<Rightarrow> go_int \<Rightarrow> nat \<Rightarrow> nat \<Rightarrow> Style \<Rightarrow> screen_call list" where
  "fill_rows col row n 0 st = []"
| "fill_rows col row n (Suc m) st = fill_row col row n st @ fill_rows col (row + 1) n m st"

definition Box_Draw :: box_draw where
  "Box_Draw b scr =
     (if width b \<le>s 0 \<or> height b \<le>s 0 then scr
      else scr @ fill_rows (x b) (y b) (unat (width b)) (unat (height b))
                   (Background StyleDefault (backgroundColor b)))"

text \<open>
  A focused, unchecked checkbox with the label \<^verbatim>\<open>X\<close> in a region ten columns wide and
  one row high at the origin, without border, with the colours of \<^verbatim>\<open>NewCheckbox\<close>
  (yellow, blue and white in tcell's palette) and both handlers installed.
\<close>

definition sample_box :: Box where
  "sample_box = \<lparr>x = 0, y = 0, width = 10, height = 1, border = False,
                  backgroundColor = 0, focus = \<lparr>HasFocus = True\<rparr>\<rparr>"

definition sample_checkbox :: "(nat, nat) Checkbox" where
  "sample_checkbox = \<lparr>Box = sample_box, checked = False, label = ''X'', labelColor = 11,
      fieldBackgroundColor = 12, fieldTextColor = 15, changed = Some 0, done' = Some 1\<rparr>"

definition sample_world :: "(nat, nat) World" where
  "sample_world = \<lparr>widget = sample_checkbox, screen = [], calls = []\<rparr>"

text \<open>The same widget in a region without rows, and in a region one column wide.\<close>

definition flat_world :: "(nat, nat) World" where
  "flat_world = sample_world\<lparr>widget := sample_checkbox\<lparr>Box := sample_box\<lparr>height := 0\<rparr>\<rparr>\<rparr>"

definition narrow_world :: "(nat, nat) World" where
  "narrow_world = sample_world\<lparr>widget := sample_checkbox\<lparr>Box := sample_box\<lparr>width := 1\<rparr>\<rparr>\<rparr>"

text \<open>
  The same widget in a bordered region three columns wide and two rows high, which has
  no row inside the border, and in a bordered region whose height is the least 64-bit
  integer.
\<close>

definition low_world :: "(nat, nat) World" where
  "low_world = sample_world\<lparr>widget := sample_checkbox\<lparr>Box :=
      sample_box\<lparr>width := 3, height := 2, border := True\<rparr>\<rparr>\<rparr>"

definition wrapped_world :: "(nat, nat) World" where
  "wrapped_world = sample_world\<lparr>widget := sample_checkbox\<lparr>Box :=
      sample_box\<lparr>height := - (2 ^ 63), border := True\<rparr>\<rparr>\<rparr>"

text \<open>A box with a border, ten columns wide and three rows high.\<close>

definition bordered_box :: Box where
  "bordered_box = \<lparr>x = 0, y = 0, width = 10, height = 3, border = True,
                    backgroundColor = 0, focus = \<lparr>HasFocus = False\<rparr>\<rparr>"

section \<open>Properties\<close>

subsection \<open>The interior rectangle\<close>

lemma prepare_border:
  "border b \<Longrightarrow> prepare b = \<lparr>x' = x b + 1, y' = y b + 1, rightLimit = x b + width b - 2, height' = height b - 2\<rparr>"
  by (simp add: prepare_def)

lemma prepare_plain:
  "\<not> border b \<Longrightarrow> prepare b = \<lparr>x' = x b, y' = y b, rightLimit = x b + width b, height' = height b\<rparr>"
  by (simp add: prepare_def)

text \<open>
  With a border the span between the adjusted \<^verbatim>\<open>x\<close> and \<^verbatim>\<open>rightLimit\<close> is the width
  less three: \<^verbatim>\<open>rightLimit\<close> is lowered by two after \<^verbatim>\<open>x\<close> was raised by one.
\<close>

lemma prepare_border_span:
  "border b \<Longrightarrow> rightLimit (prepare b) - x' (prepare b) = width b - 3"
  by (simp add: prepare_def)

lemma prepare_plain_span:
  "\<not> border b \<Longrightarrow> rightLimit (prepare b) - x' (prepare b) = width b"
  by (simp add: prepare_def)

lemma sint_add_in_range:
  fixes a b :: go_int
  assumes "- (2 ^ 63) \<le> sint a + sint b" "sint a + sint b < 2 ^ 63"
  shows "sint (a + b) = sint a + sint b"
  using assms by (simp add: sint_word_ariths signed_take_bit_int_eq_self)

lemma sint_sub_in_range:
  fixes a b :: go_int
  assumes "- (2 ^ 63) \<le> sint a - sint b" "sint a - sint b < 2 ^ 63"
  shows "sint (a - b) = sint a - sint b"
  using assms by (simp add: sint_word_ariths signed_take_bit_int_eq_self)

text \<open>
  The guard of line 132 read on the integers, for a rectangle whose numbers are in range:
  the height left inside is below one row, or the span left for the label is empty.
\<close>

lemma too_small_geometry:
  assumes "in_range (x b)" "in_range (width b)" "in_range (height b)"
  shows "too_small (prepare b) \<longleftrightarrow>
           (if border b then sint (height b) - 2 < 1 \<or> sint (width b) - 3 \<le> 0
            else sint (height b) < 1 \<or> sint (width b) \<le> 0)"
proof -
  have xw: "sint (x b + width b) = sint (x b) + sint (width b)"
    using assms by (intro sint_add_in_range) (simp_all add: in_range_def)
  have x1: "sint (x b + 1) = sint (x b) + 1"
    using assms sint_add_in_range [of "x b" 1] by (simp add: in_range_def)
  have xw2: "sint (x b + width b - 2) = sint (x b) + sint (width b) - 2"
  proof -
    have "sint (x b + width b - 2) = sint (x b + width b) - sint (2 :: go_int)"
      using assms xw by (intro sint_sub_in_range) (simp_all add: in_range_def)
    then show ?thesis by (simp add: xw)
  qed
  have h2: "sint (height b - 2) = sint (height b) - 2"
    using assms sint_sub_in_range [of "height b" 2] by (simp add: in_range_def)
  show ?thesis
    by (auto simp add: too_small_def prepare_def word_sle_eq word_sless_alt xw x1 xw2 h2)
qed

text \<open>
  C1. Claimed: with a border the interior is inset by one cell and the span from the
  adjusted \<^verbatim>\<open>x\<close> to \<^verbatim>\<open>rightLimit\<close> is the width less two. For the bordered box of
  width 10 and height 3 at the origin \<^verbatim>\<open>Draw\<close> computes \<^verbatim>\<open>x = 1\<close>, \<^verbatim>\<open>y = 1\<close>,
  \<^verbatim>\<open>height = 1\<close> and \<^verbatim>\<open>rightLimit = 8\<close>: the span is 7, one less than the 8 columns
  inside the border.
\<close>

theorem C1_bordered_span_is_width_less_three:
  "prepare bordered_box = \<lparr>x' = 1, y' = 1, rightLimit = 8, height' = 1\<rparr> \<and>
   rightLimit (prepare bordered_box) - x' (prepare bordered_box) = 7 \<and>
   width bordered_box - 2 = 8"
  by (simp add: prepare_def bordered_box_def)

subsection \<open>The input handler\<close>

text \<open>
  C2. On Enter, or on a rune key whose rune is a space, \<^verbatim>\<open>checked\<close> is negated; if
  \<^verbatim>\<open>changed\<close> is installed it is called once, with the new value, and the widget it
  observes at the call already holds the new value. Nothing else changes.
\<close>

theorem C2_toggle_then_changed:
  assumes "key ev = KeyEnter \<or> (key ev = KeyRune \<and> ch ev = rune_space)"
  shows "InputHandler ev sf w =
           w\<lparr>widget := (widget w)\<lparr>checked := \<not> checked (widget w)\<rparr>,
             calls := calls w @
               (case changed (widget w) of
                  None \<Rightarrow> []
                | Some f \<Rightarrow> [Changed_call f (\<not> checked (widget w))
                               ((widget w)\<lparr>checked := \<not> checked (widget w)\<rparr>)])\<rparr>"
  using assms by (auto simp add: InputHandler_def Let_def split: option.splits)

theorem C2_toggle_then_changed_witness:
  "InputHandler \<lparr>key = KeyRune, ch = rune_space\<rparr> () sample_world =
     sample_world\<lparr>widget := sample_checkbox\<lparr>checked := True\<rparr>,
                  calls := [Changed_call 0 True (sample_checkbox\<lparr>checked := True\<rparr>)]\<rparr>"
  using C2_toggle_then_changed [of "\<lparr>key = KeyRune, ch = rune_space\<rparr>" "()" sample_world]
  by (simp add: sample_world_def sample_checkbox_def)

text \<open>
  C4. On Tab, Backtab or Escape the widget is left as it is; if \<^verbatim>\<open>done\<close> is installed
  it is called once with that key, and without a handler nothing happens.
\<close>

theorem C4_done_keys:
  assumes "key ev = KeyTab \<or> key ev = KeyBacktab \<or> key ev = KeyEscape"
  shows "InputHandler ev sf w =
           w\<lparr>calls := calls w @
               (case done' (widget w) of
                  None \<Rightarrow> []
                | Some g \<Rightarrow> [Done_call g (key ev) (widget w)])\<rparr>"
  using assms by (auto simp add: InputHandler_def Let_def split: option.splits)

theorem C4_done_keys_witness:
  "InputHandler \<lparr>key = KeyTab, ch = 0\<rparr> () sample_world =
     sample_world\<lparr>calls := [Done_call 1 KeyTab sample_checkbox]\<rparr>"
  using C4_done_keys [of "\<lparr>key = KeyTab, ch = 0\<rparr>" "()" sample_world]
  by (simp add: sample_world_def sample_checkbox_def)

text \<open>
  C9. A rune key whose rune is not a space, and every key other than the rune key,
  Enter, Tab, Backtab and Escape, leaves the widget, the screen and the record of
  handler calls as they are.
\<close>

theorem C9_other_keys_ignored:
  assumes "(key ev = KeyRune \<and> ch ev \<noteq> rune_space) \<or>
           key ev \<notin> {KeyRune, KeyEnter, KeyTab, KeyBacktab, KeyEscape}"
  shows "InputHandler ev sf w = w"
  using assms by (auto simp add: InputHandler_def Let_def)

theorem C9_other_keys_ignored_witness:
  "InputHandler \<lparr>key = KeyRune, ch = 97\<rparr> () sample_world = sample_world \<and>
   InputHandler \<lparr>key = KeyOther 257, ch = 0\<rparr> () sample_world = sample_world"
  using C9_other_keys_ignored [of "\<lparr>key = KeyRune, ch = 97\<rparr>" "()" sample_world]
        C9_other_keys_ignored [of "\<lparr>key = KeyOther 257, ch = 0\<rparr>" "()" sample_world]
  by (simp add: rune_space_def)

subsection \<open>Sequences of toggling events\<close>






subsection \<open>What a screen shows\<close>

lemma render_append: "render (s @ ops) = replay (render s) ops"
  by (simp add: render_def replay_def)

lemma replay_snoc: "replay d (ops @ [c]) = apply_call (replay d ops) c"
  by (simp add: replay_def)

text \<open>
  Calls replayed on a display override it: the cells they write win, the others stay, and
  the cursor is where the last cursor call left it.
\<close>

lemma cells_replay: "cells (replay d ops) = cells d ++ cells (replay blank ops)"
proof (induction ops rule: rev_induct)
  case Nil
  show ?case by (simp add: replay_def blank_def)
next
  case (snoc c ops)
  have "cells (replay d (ops @ [c])) = cells d ++ cells (replay blank (ops @ [c]))"
    using snoc.IH by (cases c) (simp_all add: replay_snoc)
  then show ?case .
qed

lemma cursor_replay:
  "cursor (replay d ops) =
     (if list_ex moves_cursor ops then cursor (replay blank ops) else cursor d)"
proof (induction ops rule: rev_induct)
  case Nil
  show ?case by (simp add: replay_def)
next
  case (snoc c ops)
  show ?case
    by (cases c) (simp_all add: replay_snoc snoc.IH)
qed

lemma map_add_twice: "(m ++ n) ++ n = m ++ n"
  by (rule ext) (simp add: map_add_def split: option.splits)

lemma replay_twice: "replay (replay d ops) ops = replay d ops"
proof -
  have "cells (replay (replay d ops) ops) = cells (replay d ops)"
    by (simp add: cells_replay [of "replay d ops"] cells_replay [of d] map_add_twice)
  moreover have "cursor (replay (replay d ops) ops) = cursor (replay d ops)"
    by (simp add: cursor_replay [of "replay d ops"] cursor_replay [of d])
  ultimately show ?thesis by simp
qed


subsection \<open>Draw\<close>

lemma Draw_widget: "widget (Draw bd pr w) = widget w"
  by (simp add: Draw_def Let_def split: prod.splits)


lemma Draw_screen_drawn:
  assumes "\<not> too_small (interior w)"
    and "pr (bd (Box (widget w)) (screen w)) (label (widget w)) (x' (interior w)) (y' (interior w))
           (rightLimit (interior w) - x' (interior w)) AlignLeft (labelColor (widget w)) = (scr1, n)"
  shows "screen (Draw bd pr w) =
           scr1 @ [SetContent_call (x' (interior w) + n) (y' (interior w))
                     (checkedRune (widget w)) [] (fieldStyle (widget w))]
                @ (if focused w then [HideCursor_call] else [])"
  using assms by (simp add: Draw_def Let_def SetContent_def HideCursor_def)






text \<open>
  When the height left by \<open>prepare\<close> is below one row, or \<^verbatim>\<open>rightLimit\<close> is not to the
  right of \<^verbatim>\<open>x\<close>, \<^verbatim>\<open>Draw\<close> returns after \<^verbatim>\<open>Box.Draw\<close>.
\<close>

lemma Draw_too_small:
  assumes "too_small (interior w)"
  shows "Draw bd pr w = w\<lparr>screen := bd (Box (widget w)) (screen w)\<rparr>"
  using assms by (simp add: Draw_def)

text \<open>
  C3, as claimed, fails twice. \<^verbatim>\<open>Draw\<close> calls \<^verbatim>\<open>Box.Draw\<close> before it looks at the
  rectangle (line 119), so a screen is written on whenever the box paints: the bordered
  box three columns wide and two rows high has no row inside its border, and the six cells
  of its background are written. And the locals of \<^verbatim>\<open>Draw\<close> are 64-bit integers: with
  a border and the least integer as height, \<^verbatim>\<open>height -= 2\<close> wraps around to a large
  height, the guard lets the draw through, and the label, the toggle cell and
  \<^verbatim>\<open>HideCursor\<close> follow.
\<close>

theorem C3_small_rectangle_written_on:
  "spec_interior_height (Box (widget low_world)) < 1 \<and>
   screen low_world = [] \<and>
   screen (Draw Box_Draw Print low_world) =
     [SetContent_call 0 0 rune_space [] \<lparr>fg = ColorDefault, bg = 0, attrs = 0\<rparr>,
      SetContent_call 1 0 rune_space [] \<lparr>fg = ColorDefault, bg = 0, attrs = 0\<rparr>,
      SetContent_call 2 0 rune_space [] \<lparr>fg = ColorDefault, bg = 0, attrs = 0\<rparr>,
      SetContent_call 0 1 rune_space [] \<lparr>fg = ColorDefault, bg = 0, attrs = 0\<rparr>,
      SetContent_call 1 1 rune_space [] \<lparr>fg = ColorDefault, bg = 0, attrs = 0\<rparr>,
      SetContent_call 2 1 rune_space [] \<lparr>fg = ColorDefault, bg = 0, attrs = 0\<rparr>] \<and>
   spec_interior_height (Box (widget wrapped_world)) < 1 \<and>
   screen wrapped_world = [] \<and>
   screen (Draw Box_Draw Print wrapped_world) =
     [SetContent_call 1 1 rune_X [] \<lparr>fg = 11, bg = ColorDefault, attrs = 0\<rparr>,
      SetContent_call 2 1 rune_space [] \<lparr>fg = 12, bg = 15, attrs = 0\<rparr>,
      HideCursor_call]"
proof -
  have l: "spec_interior_height (Box (widget low_world)) < 1" "screen low_world = []"
    by (simp_all add: low_world_def sample_world_def sample_checkbox_def sample_box_def
        spec_interior_height_def)
  have f: "fill_rows 0 0 3 2 st =
     [SetContent_call 0 0 rune_space [] st, SetContent_call 1 0 rune_space [] st,
      SetContent_call 2 0 rune_space [] st, SetContent_call 0 1 rune_space [] st,
      SetContent_call 1 1 rune_space [] st, SetContent_call 2 1 rune_space [] st]" for st
    by (simp add: numeral_2_eq_2 numeral_3_eq_3)
  have ld: "screen (Draw Box_Draw Print low_world) =
     [SetContent_call 0 0 rune_space [] \<lparr>fg = ColorDefault, bg = 0, attrs = 0\<rparr>,
      SetContent_call 1 0 rune_space [] \<lparr>fg = ColorDefault, bg = 0, attrs = 0\<rparr>,
      SetContent_call 2 0 rune_space [] \<lparr>fg = ColorDefault, bg = 0, attrs = 0\<rparr>,
      SetContent_call 0 1 rune_space [] \<lparr>fg = ColorDefault, bg = 0, attrs = 0\<rparr>,
      SetContent_call 1 1 rune_space [] \<lparr>fg = ColorDefault, bg = 0, attrs = 0\<rparr>,
      SetContent_call 2 1 rune_space [] \<lparr>fg = ColorDefault, bg = 0, attrs = 0\<rparr>]"
    by (simp add: Draw_def too_small_def prepare_def Box_Draw_def low_world_def sample_world_def
        sample_checkbox_def sample_box_def Background_def StyleDefault_def
        word_sle_eq word_sless_alt f)
  have r: "spec_interior_height (Box (widget wrapped_world)) < 1" "screen wrapped_world = []"
    by (simp_all add: wrapped_world_def sample_world_def sample_checkbox_def sample_box_def
        spec_interior_height_def)
  have rd: "screen (Draw Box_Draw Print wrapped_world) =
     [SetContent_call 1 1 rune_X [] \<lparr>fg = 11, bg = ColorDefault, attrs = 0\<rparr>,
      SetContent_call 2 1 rune_space [] \<lparr>fg = 12, bg = 15, attrs = 0\<rparr>,
      HideCursor_call]"
    by (simp add: Draw_def too_small_def prepare_def Box_Draw_def Print_def wrapped_world_def
        sample_world_def sample_checkbox_def sample_box_def SetContent_def HideCursor_def
        checkedRune_def fieldStyle_def Foreground_def Background_def StyleDefault_def rune_X_def
        word_sle_eq word_sless_alt)
  from l ld r rd show ?thesis by simp
qed

text \<open>
  C3, amended. For a rectangle whose numbers are in range, so that nothing wraps around:
  when the inside of the box is less than one row high, or at most zero columns wide,
  \<^verbatim>\<open>Draw\<close> returns with the screen exactly as \<^verbatim>\<open>Box.Draw\<close> left it. The checkbox itself
  has made no \<^verbatim>\<open>SetContent\<close> call and no cursor call and has not called \<^verbatim>\<open>Print\<close>; the
  widget and the record of handler calls are untouched; and where \<^verbatim>\<open>Box.Draw\<close> writes
  nothing, nothing at all is written. \<^verbatim>\<open>Draw\<close> returns on every input.
\<close>

theorem C3_small_rectangle_only_box_painted:
  assumes "in_range (x (Box (widget w)))" "in_range (width (Box (widget w)))"
      "in_range (height (Box (widget w)))"
    and "spec_interior_height (Box (widget w)) < 1 \<or> spec_interior_width (Box (widget w)) \<le> 0"
  shows "Draw bd pr w = w\<lparr>screen := bd (Box (widget w)) (screen w)\<rparr> \<and>
         (bd (Box (widget w)) (screen w) = screen w \<longrightarrow> Draw bd pr w = w)"
proof -
  have "too_small (interior w)"
    using assms(4) unfolding too_small_geometry [OF assms(1-3)]
    by (auto simp add: spec_interior_height_def spec_interior_width_def split: if_splits)
  then have "Draw bd pr w = w\<lparr>screen := bd (Box (widget w)) (screen w)\<rparr>"
    by (rule Draw_too_small)
  then show ?thesis by simp
qed

theorem C3_small_rectangle_only_box_painted_witness:
  "spec_interior_height (Box (widget flat_world)) < 1 \<and>
   Draw Box_Draw Print flat_world =
     flat_world\<lparr>screen := Box_Draw (Box (widget flat_world)) (screen flat_world)\<rparr> \<and>
   Draw Box_Draw Print flat_world = flat_world"
proof -
  have r: "in_range (x (Box (widget flat_world)))" "in_range (width (Box (widget flat_world)))"
      "in_range (height (Box (widget flat_world)))"
    by (simp_all add: flat_world_def sample_world_def sample_checkbox_def sample_box_def
        in_range_def)
  have h: "spec_interior_height (Box (widget flat_world)) < 1"
    by (simp add: flat_world_def sample_world_def sample_checkbox_def sample_box_def
        spec_interior_height_def)
  have b: "Box_Draw (Box (widget flat_world)) (screen flat_world) = screen flat_world"
    by (simp add: flat_world_def sample_world_def sample_checkbox_def sample_box_def Box_Draw_def
        word_sle_eq)
  from C3_small_rectangle_only_box_painted [of flat_world Box_Draw Print] r h b show ?thesis
    by simp
qed





text \<open>
  What \<^verbatim>\<open>Draw\<close> adds to a screen when \<^verbatim>\<open>Box.Draw\<close> only adds calls which the box
  fixes (\<open>bops\<close>) and \<^verbatim>\<open>Print\<close>, on a screen where the box has just been painted, only
  adds calls which its arguments fix (\<open>pops\<close>, with the result \<open>n\<close>). \<^verbatim>\<open>Print\<close> may
  read the cells the box has painted, to keep their background for instance.
\<close>

lemma Draw_appends:
  assumes "\<forall>s. bd (Box (widget w)) s = s @ bops"
    and "\<forall>s. pr (s @ bops) (label (widget w)) (x' (interior w)) (y' (interior w))
           (rightLimit (interior w) - x' (interior w)) AlignLeft (labelColor (widget w))
         = (s @ bops @ pops, n)"
  shows "\<exists>ops. \<forall>s. Draw bd pr (w\<lparr>screen := s\<rparr>) = w\<lparr>screen := s @ ops\<rparr>"
proof (cases "too_small (interior w)")
  case True
  then have "\<forall>s. Draw bd pr (w\<lparr>screen := s\<rparr>) = w\<lparr>screen := s @ bops\<rparr>"
    using assms(1) by (simp add: Draw_def)
  then show ?thesis by blast
next
  case False
  then have "\<forall>s. Draw bd pr (w\<lparr>screen := s\<rparr>) = w\<lparr>screen := s @ (bops @ pops @
      [SetContent_call (x' (interior w) + n) (y' (interior w)) (checkedRune (widget w)) []
         (fieldStyle (widget w))]
      @ (if focused w then [HideCursor_call] else []))\<rparr>"
    using assms by (simp add: Draw_def Let_def SetContent_def HideCursor_def)
  then show ?thesis by blast
qed

lemma sample_box_appends:
  "\<forall>s. Box_Draw (Box (widget sample_world)) s = s @ Box_Draw sample_box []"
  by (simp add: sample_world_def sample_checkbox_def sample_box_def Box_Draw_def word_sle_eq)

lemma sample_print_appends:
  "\<forall>s. Print (s @ Box_Draw sample_box []) (label (widget sample_world))
     (x' (interior sample_world)) (y' (interior sample_world))
     (rightLimit (interior sample_world) - x' (interior sample_world)) AlignLeft
     (labelColor (widget sample_world)) =
   (s @ Box_Draw sample_box [] @
      [SetContent_call 0 0 rune_X [] \<lparr>fg = 11, bg = ColorDefault, attrs = 0\<rparr>], 1)"
  by (simp add: sample_world_def sample_checkbox_def sample_box_def prepare_def Print_def
      Foreground_def StyleDefault_def rune_X_def word_sless_alt)

text \<open>
  C8. \<^verbatim>\<open>Draw\<close> leaves the widget, every field of it, and the record of handler calls as
  they are. With a \<^verbatim>\<open>Box.Draw\<close> that only adds calls which the box fixes, and a
  \<^verbatim>\<open>Print\<close> that on the painted box only adds calls which its arguments fix (the two
  hypotheses), a second \<^verbatim>\<open>Draw\<close> right after the first leaves the screen showing what it
  showed: the same cells and the same cursor.
\<close>

theorem C8_draw_idempotent:
  assumes "\<forall>s. bd (Box (widget w)) s = s @ bops"
    and "\<forall>s. pr (s @ bops) (label (widget w)) (x' (interior w)) (y' (interior w))
           (rightLimit (interior w) - x' (interior w)) AlignLeft (labelColor (widget w))
         = (s @ bops @ pops, n)"
  shows "widget (Draw bd pr w) = widget w \<and>
         calls (Draw bd pr w) = calls w \<and>
         render (screen (Draw bd pr (Draw bd pr w))) = render (screen (Draw bd pr w))"
proof -
  obtain ops where ops: "\<And>s. Draw bd pr (w\<lparr>screen := s\<rparr>) = w\<lparr>screen := s @ ops\<rparr>"
    using Draw_appends [of bd w bops pr pops n] assms by blast
  have one: "Draw bd pr w = w\<lparr>screen := screen w @ ops\<rparr>"
    using ops [of "screen w"] by simp
  have two: "Draw bd pr (w\<lparr>screen := screen w @ ops\<rparr>) = w\<lparr>screen := (screen w @ ops) @ ops\<rparr>"
    by (rule ops)
  have "render ((screen w @ ops) @ ops) = render (screen w @ ops)"
    by (simp only: render_append replay_twice)
  then show ?thesis
    by (simp add: one two)
qed

theorem C8_draw_idempotent_witness:
  "widget (Draw Box_Draw Print sample_world) = sample_checkbox \<and>
   render (screen (Draw Box_Draw Print (Draw Box_Draw Print sample_world))) =
   render (screen (Draw Box_Draw Print sample_world))"
  using C8_draw_idempotent [of Box_Draw sample_world _ Print _ 1]
    sample_box_appends sample_print_appends
  by (simp add: sample_world_def)

lemma narrow_drawable: "\<not> too_small (interior narrow_world)"
  by (simp add: narrow_world_def sample_world_def sample_checkbox_def sample_box_def prepare_def
      too_small_def word_sle_eq word_sless_alt)

lemma narrow_print:
  "Print (Box_Draw (Box (widget narrow_world)) (screen narrow_world)) (label (widget narrow_world))
     (x' (interior narrow_world)) (y' (interior narrow_world))
     (rightLimit (interior narrow_world) - x' (interior narrow_world)) AlignLeft
     (labelColor (widget narrow_world)) =
   (Box_Draw (sample_box\<lparr>width := 1\<rparr>) [] @
      [SetContent_call 0 0 rune_X [] \<lparr>fg = 11, bg = ColorDefault, attrs = 0\<rparr>],
    rightLimit (interior narrow_world) - x' (interior narrow_world))"
  by (simp add: narrow_world_def sample_world_def sample_checkbox_def sample_box_def prepare_def
      Print_def Foreground_def StyleDefault_def rune_X_def word_sless_alt)

text \<open>
  C10. When \<^verbatim>\<open>Draw\<close> gets past the guard and \<^verbatim>\<open>Print\<close> returns the whole span
  \<^verbatim>\<open>rightLimit - x\<close>, the toggle cell is written at column \<^verbatim>\<open>rightLimit\<close>, which is not
  a column of the interior computed by \<open>prepare\<close>. Without a border that column is
  \<^verbatim>\<open>x + width\<close>, the first column to the right of the box; with a border it is
  \<^verbatim>\<open>x + width - 2\<close>.
\<close>

theorem C10_toggle_at_rightLimit:
  assumes "\<not> too_small (interior w)"
    and "pr (bd (Box (widget w)) (screen w)) (label (widget w)) (x' (interior w)) (y' (interior w))
           (rightLimit (interior w) - x' (interior w)) AlignLeft (labelColor (widget w))
         = (scr1, rightLimit (interior w) - x' (interior w))"
  shows "screen (Draw bd pr w) =
           scr1 @ [SetContent_call (rightLimit (interior w)) (y' (interior w))
                     (checkedRune (widget w)) [] (fieldStyle (widget w))]
                @ (if focused w then [HideCursor_call] else []) \<and>
         rightLimit (interior w) \<notin> interior_columns (interior w) \<and>
         (if border (Box (widget w))
          then rightLimit (interior w) = x (Box (widget w)) + width (Box (widget w)) - 2
          else rightLimit (interior w) = x (Box (widget w)) + width (Box (widget w)) \<and>
               rightLimit (interior w) \<notin> box_columns (Box (widget w)))"
proof -
  have s: "screen (Draw bd pr w) =
           scr1 @ [SetContent_call (x' (interior w) + (rightLimit (interior w) - x' (interior w)))
                     (y' (interior w)) (checkedRune (widget w)) [] (fieldStyle (widget w))]
                @ (if focused w then [HideCursor_call] else [])"
    using Draw_screen_drawn [of w pr bd scr1 "rightLimit (interior w) - x' (interior w)"] assms
    by simp
  have i: "rightLimit (interior w) \<notin> interior_columns (interior w)"
    by (simp add: interior_columns_def)
  have b: "\<not> border (Box (widget w)) \<Longrightarrow>
             rightLimit (interior w) = x (Box (widget w)) + width (Box (widget w))"
    by (simp add: prepare_def)
  have b': "border (Box (widget w)) \<Longrightarrow>
              rightLimit (interior w) = x (Box (widget w)) + width (Box (widget w)) - 2"
    by (simp add: prepare_def)
  have o: "x (Box (widget w)) + width (Box (widget w)) \<notin> box_columns (Box (widget w))"
    by (simp add: box_columns_def)
  show ?thesis
    using s i b b' o by simp
qed

theorem C10_toggle_at_rightLimit_witness:
  "screen (Draw Box_Draw Print narrow_world) =
     Box_Draw (sample_box\<lparr>width := 1\<rparr>) [] @
     [SetContent_call 0 0 rune_X [] \<lparr>fg = 11, bg = ColorDefault, attrs = 0\<rparr>,
      SetContent_call 1 0 rune_space [] \<lparr>fg = 12, bg = 15, attrs = 0\<rparr>,
      HideCursor_call] \<and>
   x (Box (widget narrow_world)) + width (Box (widget narrow_world)) = 1 \<and>
   1 \<notin> box_columns (Box (widget narrow_world))"
  using C10_toggle_at_rightLimit [of narrow_world Print Box_Draw _] narrow_drawable narrow_print
  by (simp add: narrow_world_def sample_world_def sample_checkbox_def sample_box_def prepare_def
      fieldStyle_def checkedRune_def Foreground_def Background_def StyleDefault_def)

end
